theory Spec2Isabelle
  imports Complex_Main "HOL-Library.Multiset"
begin

section \<open>Kernel4HEP: the data pipeline of the notebook\<close>

text \<open>
  The notebook is a straight-line script. Each code cell is embedded as a function from
  the values the cell reads to the values it binds. Calls into NumPy, pandas and
  scikit-learn whose result is fixed by their arguments (stacking, standardisation,
  slicing, indexing) are written out; an exception raised by such a call is the
  \<open>Inl\<close> branch of a sum. Real numbers stand for the float64 entries.
\<close>

subsection \<open>Arrays\<close>

datatype error = ValueError | KeyError

text \<open>
  A two-dimensional \<^verbatim>\<open>ndarray\<close>: its shape \<open>(nrows, ncols)\<close> and its rows. The shape
  is kept beside the rows because an array with no rows still has a column count.
\<close>

record ndarray =
  nrows :: nat
  ncols :: nat
  vals :: "real list list"

definition well_shaped :: "ndarray \<Rightarrow> bool" where
  "well_shaped a \<longleftrightarrow>
     length (vals a) = nrows a \<and> list_all (\<lambda>r. length r = ncols a) (vals a)"

text \<open>
  \<^verbatim>\<open>np.vstack((a, b))\<close> on two-dimensional arrays: concatenation along axis 0. NumPy raises
  \<^verbatim>\<open>ValueError\<close> when the arrays disagree in the other dimension.
\<close>

definition vstack :: "ndarray \<Rightarrow> ndarray \<Rightarrow> error + ndarray" where
  "vstack a b =
     (if ncols a \<noteq> ncols b then Inl ValueError
      else Inr \<lparr>nrows = nrows a + nrows b, ncols = ncols a, vals = vals a @ vals b\<rparr>)"

definition zeros :: "nat \<Rightarrow> real list" where
  "zeros n = replicate n 0"

definition ones :: "nat \<Rightarrow> real list" where
  "ones n = replicate n 1"

text \<open>\<^verbatim>\<open>np.hstack\<close> on one-dimensional arrays.\<close>

definition hstack :: "real list \<Rightarrow> real list \<Rightarrow> real list" where
  "hstack u v = u @ v"

text \<open>
  \<^verbatim>\<open>label_mapping = {0: "Background", 1: "Signal"}\<close>, read with \<^verbatim>\<open>dict.get\<close>
  (\<open>None\<close> for a key that is absent).
\<close>

definition label_mapping :: "real \<Rightarrow> string option" where
  "label_mapping v =
     (if v = 0 then Some ''Background'' else if v = 1 then Some ''Signal'' else None)"

text \<open>
  \<^verbatim>\<open>np.vectorize(f)(y)\<close> without \<^verbatim>\<open>otypes\<close>: \<open>f\<close> on every entry. NumPy finds the type of
  the result by calling \<open>f\<close> on the first entry and raises \<^verbatim>\<open>ValueError\<close> for an input
  of size 0.
\<close>

definition vectorize :: "(real \<Rightarrow> 'b) \<Rightarrow> real list \<Rightarrow> error + 'b list" where
  "vectorize f y = (if y = [] then Inl ValueError else Inr (map f y))"

subsection \<open>Cell 1: the data loader\<close>

text \<open>
  \<^verbatim>\<open>X = np.vstack((bkg, sig))
  y = np.hstack((np.zeros(bkg.shape[0]), np.ones(sig.shape[0])))
  y_named = np.vectorize(label_mapping.get)(y)\<close>
  The cell raises when the column counts differ (first statement) and when the two
  arrays have no rows at all (last statement).
\<close>

definition load_data ::
  "ndarray \<Rightarrow> ndarray \<Rightarrow> error + (ndarray \<times> real list \<times> string option list)" where
  "load_data bkg sig =
     (case vstack bkg sig of
        Inl e \<Rightarrow> Inl e
      | Inr X \<Rightarrow>
          let y = hstack (zeros (nrows bkg)) (ones (nrows sig))
          in case vectorize label_mapping y of
               Inl e \<Rightarrow> Inl e
             | Inr y_named \<Rightarrow> Inr (X, y, y_named))"

subsection \<open>Data frames\<close>

text \<open>
  The \<^verbatim>\<open>DataFrame\<close> of the notebook: the row labels (\<open>index\<close>), the names of the feature
  columns, the feature rows, and the \<^verbatim>\<open>Label\<close> column. The label column holds floats at
  first and names after \<^verbatim>\<open>.map(label_mapping)\<close>, so its entry type is a parameter.
\<close>

record 'l dataframe =
  index :: "nat list"
  columns :: "string list"
  feat :: "real list list"
  Label :: "'l list"

definition digit_char :: "nat \<Rightarrow> char" where
  "digit_char d = char_of (48 + d)"

fun string_of_nat :: "nat \<Rightarrow> string" where
  "string_of_nat n =
     (if n < 10 then [digit_char n] else string_of_nat (n div 10) @ [digit_char (n mod 10)])"

declare string_of_nat.simps [simp del]

text \<open>\<^verbatim>\<open>feature_names = [f"Feature_{i+1}" for i in range(X.shape[1])]\<close>\<close>

definition feature_names :: "nat \<Rightarrow> string list" where
  "feature_names F = map (\<lambda>i. ''Feature_'' @ string_of_nat (i + 1)) [0..<F]"

definition column :: "real list list \<Rightarrow> nat \<Rightarrow> real list" where
  "column M j = map (\<lambda>r. r ! j) M"

subsection \<open>Standardisation\<close>

text \<open>
  \<^verbatim>\<open>StandardScaler().fit_transform\<close>: per column the mean and the population variance
  (divisor \<open>n\<close>) of all rows passed in; every entry becomes \<open>(x - mean) / scale\<close>. The
  scale is the square root of the variance, or 1 for a column that scikit-learn takes
  for constant: one whose variance does not exceed the error bound of the variance
  computation, \<open>n * eps * var + (n * mean * eps)\<^sup>2\<close> with \<open>eps\<close> the float64 machine
  epsilon \<open>2\<^sup>-\<^sup>5\<^sup>2\<close>. A column of variance 0 is among them.
  scikit-learn raises \<^verbatim>\<open>ValueError\<close> for an input without rows or without columns.
  The arithmetic of the model is that of the reals: rounding, overflow and underflow of
  the float64 operations are not modelled.
\<close>

definition col_mean :: "real list \<Rightarrow> real" where
  "col_mean xs = sum_list xs / real (length xs)"

definition col_var :: "real list \<Rightarrow> real" where
  "col_var xs = col_mean (map (\<lambda>x. (x - col_mean xs)\<^sup>2) xs)"

definition float_eps :: real where
  "float_eps = 1 / 2 ^ 52"

definition is_constant_feature :: "real \<Rightarrow> real \<Rightarrow> nat \<Rightarrow> bool" where
  "is_constant_feature var mean n_samples \<longleftrightarrow>
     var \<le> real n_samples * float_eps * var + (real n_samples * mean * float_eps)\<^sup>2"

definition col_scale :: "real list \<Rightarrow> real" where
  "col_scale xs =
     (if is_constant_feature (col_var xs) (col_mean xs) (length xs) then 1
      else sqrt (col_var xs))"


definition fit_transform :: "real list list \<Rightarrow> nat \<Rightarrow> error + real list list" where
  "fit_transform M F =
     (if M = [] \<or> F = 0 then Inl ValueError
      else Inr (map (\<lambda>r. map (\<lambda>j. (r ! j - col_mean (column M j)) / col_scale (column M j))
                            [0..<F]) M))"

subsection \<open>Cell 2: the frame, normalised\<close>

text \<open>
  \<^verbatim>\<open>data = pd.DataFrame(X, columns=feature_names)
  data['Label'] = y
  data[feature_names] = scaler.fit_transform(data[feature_names])
  data['Label'] = data['Label'].map(label_mapping)\<close>
  The scaler sees every row of the combined data. Assigning a column of the wrong length
  raises \<^verbatim>\<open>ValueError\<close> in pandas.
\<close>

definition build_frame :: "ndarray \<Rightarrow> real list \<Rightarrow> error + string option dataframe" where
  "build_frame X y =
     (if length y \<noteq> nrows X then Inl ValueError
      else case fit_transform (vals X) (ncols X) of
             Inl e \<Rightarrow> Inl e
           | Inr Z \<Rightarrow>
               Inr \<lparr>index = [0..<nrows X], columns = feature_names (ncols X), feat = Z,
                    Label = map label_mapping y\<rparr>)"

subsection \<open>Random generators\<close>

text \<open>
  A library call that draws random numbers takes \<^verbatim>\<open>random_state\<close>: an integer makes a
  fresh generator seeded with it; \<^verbatim>\<open>None\<close> (the default) means NumPy's global generator,
  whose state at the start of a run comes from the operating system and is an input of
  the run. The generator's algorithm is the library's: \<open>permutation\<close>, the model of
  \<^verbatim>\<open>RandomState.permutation(n)\<close>, is a parameter of every function that shuffles, and
  \<open>is_permutation_routine\<close> is what NumPy promises of it.
\<close>

datatype rng = RandomState nat | GlobalState nat

fun check_random_state :: "nat \<Rightarrow> nat option \<Rightarrow> rng" where
  "check_random_state g None = GlobalState g"
| "check_random_state g (Some seed) = RandomState seed"

definition is_permutation_routine :: "(rng \<Rightarrow> nat \<Rightarrow> nat list) \<Rightarrow> bool" where
  "is_permutation_routine permutation \<longleftrightarrow> (\<forall>r n. mset (permutation r n) = mset [0..<n])"

subsection \<open>Cell 3: the subsample\<close>

text \<open>The rows at the positions \<open>locs\<close>, in that order (\<^verbatim>\<open>DataFrame.take\<close>).\<close>

definition take_rows :: "'l dataframe \<Rightarrow> nat list \<Rightarrow> 'l dataframe" where
  "take_rows df locs =
     df\<lparr>index := map (\<lambda>i. index df ! i) locs,
        feat := map (\<lambda>i. feat df ! i) locs,
        Label := map (\<lambda>i. Label df ! i) locs\<rparr>"

text \<open>
  \<^verbatim>\<open>DataFrame.sample(n, random_state)\<close> without replacement: the first \<open>n\<close> entries of a
  permutation of the row positions; \<^verbatim>\<open>ValueError\<close> when \<open>n\<close> exceeds the number of rows.
\<close>

definition sample ::
  "(rng \<Rightarrow> nat \<Rightarrow> nat list) \<Rightarrow> nat \<Rightarrow> 'l dataframe \<Rightarrow> nat \<Rightarrow> nat option
     \<Rightarrow> error + 'l dataframe" where
  "sample permutation g df n random_state =
     (let N = length (index df) in
      if n > N then Inl ValueError
      else Inr (take_rows df (take n (permutation (check_random_state g random_state) N))))"

definition max_samples :: nat where
  "max_samples = 200"

text \<open>\<^verbatim>\<open>data = data.sample(n=max_samples, random_state=42)\<close>\<close>

definition subsample ::
  "(rng \<Rightarrow> nat \<Rightarrow> nat list) \<Rightarrow> nat \<Rightarrow> 'l dataframe \<Rightarrow> error + 'l dataframe" where
  "subsample permutation g df = sample permutation g df max_samples (Some 42)"

text \<open>Cells 1 to 3 in sequence: from the two arrays to the subsampled frame.\<close>

definition preprocess ::
  "(rng \<Rightarrow> nat \<Rightarrow> nat list) \<Rightarrow> nat \<Rightarrow> ndarray \<Rightarrow> ndarray \<Rightarrow> error + string option dataframe" where
  "preprocess permutation g bkg sig =
     (case load_data bkg sig of
        Inl e \<Rightarrow> Inl e
      | Inr (X, y, y_named) \<Rightarrow>
          (case build_frame X y of
             Inl e \<Rightarrow> Inl e
           | Inr df \<Rightarrow> subsample permutation g df))"


subsection \<open>Cell 4: mutual information and the ranking\<close>

text \<open>\<^verbatim>\<open>data[feature_names].values\<close>\<close>

definition values_of :: "'l dataframe \<Rightarrow> ndarray" where
  "values_of df = \<lparr>nrows = length (index df), ncols = length (columns df), vals = feat df\<rparr>"

text \<open>\<^verbatim>\<open>(y_named == "Signal").astype(int)\<close>\<close>

definition signal_int :: "string option list \<Rightarrow> int list" where
  "signal_int y_named = map (\<lambda>l. if l = Some ''Signal'' then 1 else 0) y_named"

text \<open>
  Two library routines are parameters of the model. The estimator behind
  \<^verbatim>\<open>mutual_info_classif(X, y, discrete_features=False)\<close> takes the generator it draws its
  noise from; it raises (for one, \<^verbatim>\<open>ValueError\<close> when no class has two samples) or
  returns one score per column of \<open>X\<close>. The row order of
  \<^verbatim>\<open>sort_values(by='MI Score', ascending=False)\<close> is computed by pandas with its default
  \<^verbatim>\<open>kind='quicksort'\<close>, which pandas documents as not stable: \<open>is_descending_sort\<close> is
  what it promises, a permutation of the row positions along which the scores do not
  increase.
\<close>

definition is_mi_estimator ::
  "(rng \<Rightarrow> ndarray \<Rightarrow> int list \<Rightarrow> error + real list) \<Rightarrow> bool" where
  "is_mi_estimator mutual_info_classif \<longleftrightarrow>
     (\<forall>r X y scores.
        mutual_info_classif r X y = Inr scores \<longrightarrow> length scores = ncols X)"

definition is_descending_sort :: "(real list \<Rightarrow> nat list) \<Rightarrow> bool" where
  "is_descending_sort srt \<longleftrightarrow>
     (\<forall>xs. mset (srt xs) = mset [0..<length xs]
         \<and> sorted_wrt (\<lambda>a b. b \<le> a) (map (\<lambda>i. xs ! i) (srt xs)))"

definition sort_values ::
  "(real list \<Rightarrow> nat list) \<Rightarrow> (string \<times> real) list \<Rightarrow> (string \<times> real) list" where
  "sort_values srt rows = map (\<lambda>i. rows ! i) (srt (map snd rows))"

text \<open>
  \<^verbatim>\<open>mi_scores_df = pd.DataFrame({'Feature': feature_names, 'MI Score': mi_scores})
  mi_scores_df = mi_scores_df.sort_values(by='MI Score', ascending=False)\<close>
  pandas raises \<^verbatim>\<open>ValueError\<close> for columns of different lengths.
\<close>

definition rank_features ::
  "(real list \<Rightarrow> nat list) \<Rightarrow> string list \<Rightarrow> real list \<Rightarrow> error + (string \<times> real) list" where
  "rank_features srt names mi_scores =
     (if length mi_scores \<noteq> length names then Inl ValueError
      else Inr (sort_values srt (zip names mi_scores)))"

definition head :: "nat \<Rightarrow> 'a list \<Rightarrow> 'a list" where
  "head n xs = take n xs"

text \<open>\<^verbatim>\<open>top_features = mi_scores_df['Feature'].head(2).values\<close>\<close>

definition top_features :: "(string \<times> real) list \<Rightarrow> string list" where
  "top_features mi_scores_df = map fst (head 2 mi_scores_df)"

text \<open>The position of a column name (\<^verbatim>\<open>Index.get_loc\<close>), \<open>None\<close> when the name is absent.\<close>

fun get_loc :: "string list \<Rightarrow> string \<Rightarrow> nat option" where
  "get_loc [] name = None"
| "get_loc (c # cs) name = (if c = name then Some 0 else map_option Suc (get_loc cs name))"

text \<open>
  \<^verbatim>\<open>data[names].values\<close>: \<^verbatim>\<open>KeyError\<close> when a name is not a column. The column
  names of the notebook's frame are pairwise different (\<open>distinct_feature_names\<close>
  below), so a name has one position.
\<close>

definition select_columns :: "'l dataframe \<Rightarrow> string list \<Rightarrow> error + ndarray" where
  "select_columns df names =
     (if list_ex (\<lambda>name. get_loc (columns df) name = None) names then Inl KeyError
      else Inr \<lparr>nrows = length (index df), ncols = length names,
               vals = map (\<lambda>r. map (\<lambda>name. r ! the (get_loc (columns df) name)) names)
                        (feat df)\<rparr>)"

text \<open>
  \<^verbatim>\<open>mi_scores = mutual_info_classif(X, (y_named == "Signal").astype(int),
                                  discrete_features=False)
  ...
  top_features = mi_scores_df['Feature'].head(2).values
  X_selected = data[top_features].values\<close>
  The call passes no \<^verbatim>\<open>random_state\<close>, so the estimator draws from the global generator.
  No later cell of the model reads that generator, so its state after the call is not
  returned. An exception of the estimator ends the cell.
\<close>

definition select_features ::
  "(rng \<Rightarrow> ndarray \<Rightarrow> int list \<Rightarrow> error + real list) \<Rightarrow> (real list \<Rightarrow> nat list) \<Rightarrow> nat
     \<Rightarrow> string option dataframe \<Rightarrow> error + (real list \<times> string list \<times> ndarray)" where
  "select_features mutual_info_classif srt g data =
     (let X = values_of data;
          y = signal_int (Label data)
      in case mutual_info_classif (check_random_state g None) X y of
           Inl e \<Rightarrow> Inl e
         | Inr mi_scores \<Rightarrow>
             (case rank_features srt (columns data) mi_scores of
                Inl e \<Rightarrow> Inl e
              | Inr mi_scores_df \<Rightarrow>
                  (case select_columns data (top_features mi_scores_df) of
                     Inl e \<Rightarrow> Inl e
                   | Inr X_selected \<Rightarrow>
                       Inr (mi_scores, top_features mi_scores_df, X_selected))))"

subsection \<open>Cell 5: the split and the feature map\<close>

definition rows_at :: "ndarray \<Rightarrow> nat list \<Rightarrow> ndarray" where
  "rows_at X ind = \<lparr>nrows = length ind, ncols = ncols X, vals = map (\<lambda>i. vals X ! i) ind\<rparr>"

text \<open>
  \<^verbatim>\<open>train_test_split(X, y, test_size, random_state)\<close> with a float \<open>test_size\<close>: the test
  set gets \<open>ceil(test_size * n)\<close> samples and the training set the rest; the first
  \<open>n_test\<close> entries of a permutation of the positions index the test set and the next
  \<open>n_train\<close> the training set. scikit-learn raises \<^verbatim>\<open>ValueError\<close> for arrays of different
  lengths, for a \<open>test_size\<close> outside \<open>(0, 1)\<close> and for an empty training set.
  The product is taken over the reals; for \<open>test_size = 0.2\<close> its ceiling is that of
  the float64 product.
\<close>

definition train_test_split ::
  "(rng \<Rightarrow> nat \<Rightarrow> nat list) \<Rightarrow> nat \<Rightarrow> ndarray \<Rightarrow> int list \<Rightarrow> real \<Rightarrow> nat option
     \<Rightarrow> error + (ndarray \<times> ndarray \<times> int list \<times> int list)" where
  "train_test_split permutation g X y test_size random_state =
     (let n = nrows X in
      if length y \<noteq> n then Inl ValueError
      else if test_size \<le> 0 \<or> 1 \<le> test_size then Inl ValueError
      else
        let n_test = nat \<lceil>test_size * real n\<rceil>;
            n_train = n - n_test
        in if n_train = 0 then Inl ValueError
           else
             let perm = permutation (check_random_state g random_state) n;
                 ind_test = take n_test perm;
                 ind_train = take n_train (drop n_test perm)
             in Inr (rows_at X ind_train, rows_at X ind_test,
                     map (\<lambda>i. y ! i) ind_train, map (\<lambda>i. y ! i) ind_test))"

text \<open>
  The arguments of \<^verbatim>\<open>ZZFeatureMap(feature_dimension, reps, entanglement)\<close>. The circuit
  has one input parameter per feature dimension, named \<^verbatim>\<open>x[0]\<close>, \<^verbatim>\<open>x[1]\<close>, ...
\<close>

record feature_map =
  feature_dimension :: nat
  reps :: nat
  entanglement :: string

definition ZZFeatureMap :: "nat \<Rightarrow> nat \<Rightarrow> string \<Rightarrow> feature_map" where
  "ZZFeatureMap d r e = \<lparr>feature_dimension = d, reps = r, entanglement = e\<rparr>"

definition parameters :: "feature_map \<Rightarrow> string list" where
  "parameters fm = map (\<lambda>i. ''x['' @ string_of_nat i @ '']'') [0..<feature_dimension fm]"

text \<open>
  \<^verbatim>\<open>X_train, X_test, y_train, y_test = train_test_split(X_selected,
      (y_named == "Signal").astype(int), test_size=0.2, random_state=42)
  feature_map = ZZFeatureMap(feature_dimension=X_selected.shape[1], reps=2,
      entanglement="linear")\<close>
\<close>

definition qsvm_setup ::
  "(rng \<Rightarrow> nat \<Rightarrow> nat list) \<Rightarrow> nat \<Rightarrow> ndarray \<Rightarrow> string option list
     \<Rightarrow> error + ((ndarray \<times> ndarray \<times> int list \<times> int list) \<times> feature_map)" where
  "qsvm_setup permutation g X_selected y_named =
     (case train_test_split permutation g X_selected (signal_int y_named) (2 / 10) (Some 42) of
        Inl e \<Rightarrow> Inl e
      | Inr split \<Rightarrow> Inr (split, ZZFeatureMap (ncols X_selected) 2 ''linear''))"

subsection \<open>Instances of the library routines\<close>

text \<open>
  Concrete routines that meet the contracts above, for evaluating the model. The first
  sorts by descending score and puts, among equal scores, the later row first; the
  second is an estimator whose scores depend on what its generator draws, as those of
  scikit-learn do through the noise it adds to the features, and which raises when no
  class has two samples.
\<close>

definition ties_last_first :: "real list \<Rightarrow> nat list" where
  "ties_last_first xs = rev (sort_key (\<lambda>i. xs ! i) [0..<length xs])"

fun draw :: "rng \<Rightarrow> nat" where
  "draw (RandomState seed) = seed"
| "draw (GlobalState g) = g"

definition noise_sensitive_estimator ::
  "rng \<Rightarrow> ndarray \<Rightarrow> int list \<Rightarrow> error + real list" where
  "noise_sensitive_estimator r X y =
     (if count_list y 0 < 2 \<and> count_list y 1 < 2 then Inl ValueError
      else Inr (map (\<lambda>j. real ((draw r + j) mod 2) / 1000) [0..<ncols X]))"

subsection \<open>Cells 1 to 4 in sequence\<close>

definition notebook_selection ::
  "(rng \<Rightarrow> nat \<Rightarrow> nat list) \<Rightarrow> (rng \<Rightarrow> ndarray \<Rightarrow> int list \<Rightarrow> error + real list)
     \<Rightarrow> (real list \<Rightarrow> nat list) \<Rightarrow> nat \<Rightarrow> ndarray \<Rightarrow> ndarray
     \<Rightarrow> error + (real list \<times> string list \<times> ndarray)" where
  "notebook_selection permutation mutual_info_classif srt g bkg sig =
     (case preprocess permutation g bkg sig of
        Inl e \<Rightarrow> Inl e
      | Inr data \<Rightarrow> select_features mutual_info_classif srt g data)"

section \<open>Column names\<close>

text \<open>
  The decimal numerals of different numbers differ, so the feature columns have
  pairwise different names and a name stands for one column.
\<close>

lemma digit_char_inj: "a < 10 \<Longrightarrow> b < 10 \<Longrightarrow> digit_char a = digit_char b \<Longrightarrow> a = b"
proof -
  assume a: "a < 10" and b: "b < 10" and eq: "digit_char a = digit_char b"
  have "(of_char (char_of (48 + a)) :: nat) = of_char (char_of (48 + b))"
    using eq by (simp only: digit_char_def)
  then have "(48 + a) mod 256 = (48 + b) mod 256"
    by (simp only: of_char_of)
  then show "a = b"
    using a b by simp
qed

lemma string_of_nat_nonempty: "string_of_nat n \<noteq> []"
  by (subst string_of_nat.simps) simp

lemma string_of_nat_inj: "string_of_nat m = string_of_nat n \<Longrightarrow> m = n"
proof (induction m arbitrary: n rule: string_of_nat.induct)
  case (1 m)
  show ?case
  proof (cases "m < 10")
    case True
    then have m: "string_of_nat m = [digit_char m]"
      by (subst string_of_nat.simps) simp
    show ?thesis
    proof (cases "n < 10")
      case n: True
      then have "string_of_nat n = [digit_char n]"
        by (subst string_of_nat.simps) simp
      then show ?thesis using "1.prems" m True n digit_char_inj by simp
    next
      case n: False
      then have "string_of_nat n = string_of_nat (n div 10) @ [digit_char (n mod 10)]"
        by (subst string_of_nat.simps) simp
      then show ?thesis
        using "1.prems" m string_of_nat_nonempty [of "n div 10"] by simp
    qed
  next
    case False
    then have m: "string_of_nat m = string_of_nat (m div 10) @ [digit_char (m mod 10)]"
      by (subst string_of_nat.simps) simp
    show ?thesis
    proof (cases "n < 10")
      case n: True
      then have "string_of_nat n = [digit_char n]"
        by (subst string_of_nat.simps) simp
      then show ?thesis
        using "1.prems" m string_of_nat_nonempty [of "m div 10"] by simp
    next
      case n: False
      then have "string_of_nat n = string_of_nat (n div 10) @ [digit_char (n mod 10)]"
        by (subst string_of_nat.simps) simp
      then have "string_of_nat (m div 10) = string_of_nat (n div 10)"
        and d: "digit_char (m mod 10) = digit_char (n mod 10)"
        using "1.prems" m by simp_all
      then have "m div 10 = n div 10"
        using "1.IH" [OF False] by simp
      moreover have "m mod 10 = n mod 10"
        using d by (intro digit_char_inj) simp_all
      ultimately show ?thesis
        by (metis div_mult_mod_eq)
    qed
  qed
qed

lemma distinct_feature_names: "distinct (feature_names F)"
  by (auto simp add: feature_names_def distinct_map inj_on_def dest: string_of_nat_inj)

lemma get_loc_nth: "distinct cs \<Longrightarrow> i < length cs \<Longrightarrow> get_loc cs (cs ! i) = Some i"
proof (induction cs arbitrary: i)
  case Nil
  then show ?case by simp
next
  case (Cons c cs)
  show ?case
  proof (cases i)
    case 0
    then show ?thesis by simp
  next
    case (Suc k)
    then have "cs ! k \<in> set cs" using Cons.prems(2) by simp
    then have "c \<noteq> cs ! k" using Cons.prems(1) by auto
    then show ?thesis using Suc Cons by simp
  qed
qed

section \<open>Properties of the data loader\<close>

lemma count_list_replicate_same: "count_list (replicate n x) x = n"
  by (induction n) simp_all

lemma count_list_replicate_other: "x \<noteq> y \<Longrightarrow> count_list (replicate n x) y = 0"
  by (induction n) simp_all

lemma count_list_labels:
  "count_list (hstack (zeros m) (ones n)) 1 = n"
  "count_list (hstack (zeros m) (ones n)) 0 = m"
  by (simp_all add: hstack_def zeros_def ones_def count_list_replicate_same
      count_list_replicate_other)

lemma labels_empty_iff: "hstack (zeros m) (ones n) = [] \<longleftrightarrow> m + n = 0"
  by (simp add: hstack_def zeros_def ones_def)

lemma load_data_Inr:
  assumes "ncols bkg = ncols sig" and "0 < nrows bkg + nrows sig"
  shows "load_data bkg sig =
     Inr (\<lparr>nrows = nrows bkg + nrows sig, ncols = ncols bkg, vals = vals bkg @ vals sig\<rparr>,
          hstack (zeros (nrows bkg)) (ones (nrows sig)),
          map label_mapping (hstack (zeros (nrows bkg)) (ones (nrows sig))))"
proof -
  have "hstack (zeros (nrows bkg)) (ones (nrows sig)) \<noteq> []"
    using assms(2) by (simp add: labels_empty_iff)
  then show ?thesis
    using assms(1) by (simp add: load_data_def vstack_def vectorize_def Let_def)
qed

lemma load_data_no_rows:
  assumes "nrows bkg + nrows sig = 0"
  shows "load_data bkg sig = Inl ValueError"
proof -
  have "hstack (zeros (nrows bkg)) (ones (nrows sig)) = []"
    using assms by (simp add: labels_empty_iff)
  then show ?thesis
    by (simp add: load_data_def vstack_def vectorize_def Let_def)
qed

text \<open>
  Claim C1. For arrays \<open>bkg\<close> of shape \<open>(n_bkg, F)\<close> and \<open>sig\<close> of shape \<open>(n_sig, F)\<close>
  that hold at least one row between them, the loader returns a feature matrix of
  \<open>n_bkg + n_sig\<close> rows, the rows of \<open>bkg\<close> first and those of \<open>sig\<close> after them, and a
  label vector with exactly \<open>n_sig\<close> ones and \<open>n_bkg\<close> zeros; row \<open>i\<close> of the matrix and
  entry \<open>i\<close> of the labels belong together (a background row carries 0 and the name
  Background, a signal row 1 and the name Signal). For two arrays without rows the cell
  raises and returns nothing (\<open>load_data_no_rows\<close>).
\<close>

theorem load_data_rows_and_labels:
  assumes "well_shaped bkg" and "well_shaped sig" and "ncols bkg = ncols sig"
    and "0 < nrows bkg + nrows sig"
  shows "\<exists>X y y_named. load_data bkg sig = Inr (X, y, y_named)
    \<and> well_shaped X \<and> nrows X = nrows bkg + nrows sig \<and> ncols X = ncols bkg
    \<and> vals X = vals bkg @ vals sig
    \<and> length y = nrows X \<and> length y_named = nrows X
    \<and> count_list y 1 = nrows sig \<and> count_list y 0 = nrows bkg
    \<and> (\<forall>i < nrows bkg. vals X ! i = vals bkg ! i \<and> y ! i = 0
          \<and> y_named ! i = Some ''Background'')
    \<and> (\<forall>i < nrows sig. vals X ! (nrows bkg + i) = vals sig ! i \<and> y ! (nrows bkg + i) = 1
          \<and> y_named ! (nrows bkg + i) = Some ''Signal'')"
proof -
  let ?X = "\<lparr>nrows = nrows bkg + nrows sig, ncols = ncols bkg, vals = vals bkg @ vals sig\<rparr>"
  let ?y = "hstack (zeros (nrows bkg)) (ones (nrows sig))"
  have lb: "length (vals bkg) = nrows bkg" and ls: "length (vals sig) = nrows sig"
    using assms by (simp_all add: well_shaped_def)
  have run: "load_data bkg sig = Inr (?X, ?y, map label_mapping ?y)"
    using assms(3,4) by (rule load_data_Inr)
  have shaped: "well_shaped ?X"
    using assms(1,2,3) by (simp add: well_shaped_def)
  have len: "length ?y = nrows bkg + nrows sig"
    by (simp add: hstack_def zeros_def ones_def)
  have bkg_part: "\<forall>i < nrows bkg. vals ?X ! i = vals bkg ! i \<and> ?y ! i = 0
      \<and> map label_mapping ?y ! i = Some ''Background''"
    using lb by (simp add: nth_append hstack_def zeros_def ones_def label_mapping_def)
  have sig_part: "\<forall>i < nrows sig. vals ?X ! (nrows bkg + i) = vals sig ! i
      \<and> ?y ! (nrows bkg + i) = 1
      \<and> map label_mapping ?y ! (nrows bkg + i) = Some ''Signal''"
    using lb ls by (simp add: nth_append hstack_def zeros_def ones_def label_mapping_def)
  show ?thesis
    using run shaped len bkg_part sig_part count_list_labels [of "nrows bkg" "nrows sig"]
    by (simp add: label_mapping_def)
qed

theorem load_data_rows_and_labels_witness:
  "\<exists>X y y_named.
     load_data \<lparr>nrows = 2, ncols = 2, vals = [[1, 2], [3, 4]]\<rparr>
               \<lparr>nrows = 1, ncols = 2, vals = [[5, 6]]\<rparr> = Inr (X, y, y_named)
     \<and> nrows X = 3 \<and> vals X = [[1, 2], [3, 4], [5, 6]]
     \<and> count_list y 1 = 1 \<and> count_list y 0 = 2"
  using load_data_rows_and_labels
    [of "\<lparr>nrows = 2, ncols = 2, vals = [[1, 2], [3, 4]]\<rparr>"
        "\<lparr>nrows = 1, ncols = 2, vals = [[5, 6]]\<rparr>"]
  by (auto simp add: well_shaped_def)

text \<open>
  Claim C6 fails for two arrays without rows: their column counts agree (67 each), yet
  the loader raises, because \<^verbatim>\<open>np.vectorize\<close> refuses the label vector of size 0.
\<close>

theorem load_data_fails_on_empty_arrays:
  "load_data \<lparr>nrows = 0, ncols = 67, vals = []\<rparr> \<lparr>nrows = 0, ncols = 67, vals = []\<rparr>
     = Inl ValueError"
  by (simp add: load_data_no_rows)

text \<open>
  Claim C6, as the code has it. The loader raises \<^verbatim>\<open>ValueError\<close> exactly when the two
  arrays differ in their number of feature columns (\<^verbatim>\<open>np.vstack\<close>) or hold no row
  between them (\<^verbatim>\<open>np.vectorize\<close>); the notebook has no check of its own. It returns
  exactly when the column counts agree and there is at least one row, and then it
  returns the stacked matrix, the labels and their names.
\<close>

theorem load_data_fails_iff:
  "(load_data bkg sig = Inl ValueError)
     = (nrows bkg + nrows sig = 0 \<or> ncols bkg \<noteq> ncols sig)
   \<and> (load_data bkg sig =
         Inr (\<lparr>nrows = nrows bkg + nrows sig, ncols = ncols bkg, vals = vals bkg @ vals sig\<rparr>,
              hstack (zeros (nrows bkg)) (ones (nrows sig)),
              map label_mapping (hstack (zeros (nrows bkg)) (ones (nrows sig)))))
     = (ncols bkg = ncols sig \<and> 0 < nrows bkg + nrows sig)
   \<and> (\<exists>r. load_data bkg sig = Inr r) = (ncols bkg = ncols sig \<and> 0 < nrows bkg + nrows sig)"
proof (cases "ncols bkg = ncols sig")
  case False
  then have "load_data bkg sig = Inl ValueError"
    by (simp add: load_data_def vstack_def)
  then show ?thesis using False by simp
next
  case cols: True
  show ?thesis
  proof (cases "nrows bkg + nrows sig = 0")
    case True
    then show ?thesis
      using cols load_data_no_rows [OF True] by simp
  next
    case False
    then have "0 < nrows bkg + nrows sig" by simp
    then show ?thesis
      using cols load_data_Inr [OF cols] by simp
  qed
qed

theorem load_data_fails_iff_witness:
  "load_data \<lparr>nrows = 1, ncols = 2, vals = [[1, 2]]\<rparr> \<lparr>nrows = 1, ncols = 3, vals = [[5, 6, 7]]\<rparr>
     = Inl ValueError
   \<and> (\<exists>r. load_data \<lparr>nrows = 1, ncols = 2, vals = [[1, 2]]\<rparr>
            \<lparr>nrows = 1, ncols = 2, vals = [[5, 6]]\<rparr> = Inr r)"
  using load_data_fails_iff
      [of "\<lparr>nrows = 1, ncols = 2, vals = [[1, 2]]\<rparr>" "\<lparr>nrows = 1, ncols = 3, vals = [[5, 6, 7]]\<rparr>"]
    load_data_fails_iff
      [of "\<lparr>nrows = 1, ncols = 2, vals = [[1, 2]]\<rparr>" "\<lparr>nrows = 1, ncols = 2, vals = [[5, 6]]\<rparr>"]
  by simp

section \<open>Properties of the subsample\<close>

lemma length_permutation:
  "is_permutation_routine permutation \<Longrightarrow> length (permutation r n) = n"
  by (metis is_permutation_routine_def length_upt minus_nat.diff_0 size_mset)

lemma set_permutation:
  "is_permutation_routine permutation \<Longrightarrow> set (permutation r n) = {0..<n}"
  by (metis is_permutation_routine_def set_mset_mset set_upt)

lemma distinct_permutation:
  "is_permutation_routine permutation \<Longrightarrow> distinct (permutation r n)"
  by (metis is_permutation_routine_def distinct_upt mset_eq_imp_distinct_iff)

text \<open>
  Claim C7. Drawing \<open>n\<close> rows fails exactly when \<open>n\<close> exceeds the number of rows of the
  frame, and otherwise returns a frame of exactly \<open>n\<close> rows with the same columns. The
  failure is the \<^verbatim>\<open>ValueError\<close> of \<^verbatim>\<open>DataFrame.sample\<close>.
\<close>

theorem sample_fails_iff_too_many:
  assumes "is_permutation_routine permutation"
  shows "(sample permutation g df n random_state = Inl ValueError) = (length (index df) < n)
    \<and> (\<exists>d. sample permutation g df n random_state = Inr d
            \<and> length (index d) = n \<and> length (feat d) = n \<and> length (Label d) = n
            \<and> columns d = columns df) = (n \<le> length (index df))"
  using assms
  by (auto simp add: sample_def Let_def take_rows_def length_permutation)

theorem sample_fails_iff_too_many_witness:
  "sample (\<lambda>r n. rev [0..<n]) 0
      \<lparr>index = [0, 1, 2], columns = [''Feature_1''], feat = [[1], [2], [3]],
       Label = [''a'', ''b'', ''c'']\<rparr> 5 (Some 42) = Inl ValueError
   \<and> (\<exists>d. sample (\<lambda>r n. rev [0..<n]) 0
      \<lparr>index = [0, 1, 2], columns = [''Feature_1''], feat = [[1], [2], [3]],
       Label = [''a'', ''b'', ''c'']\<rparr> 2 (Some 42) = Inr d \<and> length (feat d) = 2)"
proof -
  have p: "is_permutation_routine (\<lambda>r n. rev [0..<n])"
    by (simp add: is_permutation_routine_def)
  show ?thesis
    using sample_fails_iff_too_many [OF p, of 0
        "\<lparr>index = [0, 1, 2], columns = [''Feature_1''], feat = [[1], [2], [3]],
          Label = [''a'', ''b'', ''c'']\<rparr>" 5 "Some 42"]
      sample_fails_iff_too_many [OF p, of 0
        "\<lparr>index = [0, 1, 2], columns = [''Feature_1''], feat = [[1], [2], [3]],
          Label = [''a'', ''b'', ''c'']\<rparr>" 2 "Some 42"]
    by auto
qed

section \<open>Standardisation and the subsample\<close>






lemma zero_variance_is_constant: "col_var xs = 0 \<Longrightarrow> is_constant_feature (col_var xs) m n"
  by (simp add: is_constant_feature_def)







text \<open>
  A column that is not constant and is taken for constant: the entries
  \<open>10\<^sup>6 - 2\<^sup>-\<^sup>3\<^sup>2\<close> and \<open>10\<^sup>6 + 2\<^sup>-\<^sup>3\<^sup>2\<close> have variance \<open>2\<^sup>-\<^sup>6\<^sup>4\<close>, below the bound
  \<open>(2 * 10\<^sup>6 * eps)\<^sup>2\<close>, so the scale is 1 and the variance stays \<open>2\<^sup>-\<^sup>6\<^sup>4\<close>.
\<close>

lemma near_constant_column_scale:
  "col_scale [1000000 - 1 / 2 ^ 32, 1000000 + 1 / 2 ^ 32] = 1"
proof -
  have m: "col_mean [1000000 - 1 / 2 ^ 32, 1000000 + 1 / 2 ^ 32] = 1000000"
    by (simp add: col_mean_def)
  have v: "col_var [1000000 - 1 / 2 ^ 32, 1000000 + 1 / 2 ^ 32] = 1 / 2 ^ 64"
    unfolding col_var_def m by (simp add: col_mean_def power2_eq_square)
  show ?thesis
    unfolding col_scale_def m v
    by (simp add: is_constant_feature_def float_eps_def power2_eq_square)
qed

lemma sum_list_replicate_real: "sum_list (replicate n (x::real)) = real n * x"
  by (induction n) (simp_all add: algebra_simps)

lemma col_mean_outlier: "col_mean (replicate 225 0 @ [1]) = 1 / 226"
  by (simp add: col_mean_def sum_list_replicate_real)

lemma col_var_outlier: "col_var (replicate 225 0 @ [1]) = 225 / 51076"
  by (simp add: col_var_def col_mean_outlier) (simp add: col_mean_def sum_list_replicate_real power2_eq_square)

lemma col_scale_outlier: "col_scale (replicate 225 0 @ [1]) = 15 / 226"
proof -
  have r: "sqrt (225 / 51076) = 15 / 226"
    by (rule real_sqrt_unique) (simp_all add: power2_eq_square)
  have c: "\<not> is_constant_feature (225 / 51076) (1 / 226) 226"
    by (simp add: is_constant_feature_def float_eps_def power2_eq_square)
  show ?thesis
    unfolding col_scale_def col_var_outlier col_mean_outlier using c r by simp
qed

lemma build_frame_outlier:
  "build_frame \<lparr>nrows = 226, ncols = 1, vals = replicate 225 [0] @ [[1]]\<rparr>
       (hstack (zeros 225) (ones 1))
   = Inr \<lparr>index = [0..<226], columns = feature_names 1,
          feat = replicate 225 [- 1 / 15] @ [[15]],
          Label = map label_mapping (hstack (zeros 225) (ones 1))\<rparr>"
proof -
  have c: "column (replicate 225 [0] @ [[1]]) 0 = replicate 225 0 @ [1]"
    by (simp add: column_def)
  have ne: "replicate 225 [0::real] @ [[1]] \<noteq> []" by simp
  have "fit_transform (replicate 225 [0] @ [[1]]) 1 = Inr (replicate 225 [- 1 / 15] @ [[15]])"
    unfolding fit_transform_def using ne
    by (simp add: c col_mean_outlier col_scale_outlier)
  then show ?thesis
    by (simp add: build_frame_def hstack_def zeros_def ones_def)
qed


lemma preprocess_outlier:
  "preprocess permutation g \<lparr>nrows = 225, ncols = 1, vals = replicate 225 [0]\<rparr>
       \<lparr>nrows = 1, ncols = 1, vals = [[1]]\<rparr>
   = Inr (take_rows \<lparr>index = [0..<226], columns = feature_names 1,
          feat = replicate 225 [- 1 / 15] @ [[15]],
          Label = map label_mapping (hstack (zeros 225) (ones 1))\<rparr>
        (take 200 (permutation (RandomState 42) 226)))"
  using build_frame_outlier
    load_data_Inr [of "\<lparr>nrows = 225, ncols = 1, vals = replicate 225 [0]\<rparr>"
      "\<lparr>nrows = 1, ncols = 1, vals = [[1]]\<rparr>"]
  by (simp add: preprocess_def Let_def subsample_def sample_def max_samples_def)

lemma outlier_row: "i < 226 \<Longrightarrow>
  (replicate 225 [- 1 / 15] @ [[15::real]]) ! i ! 0 = (if i = 225 then 15 else - 1 / 15)"
  by (simp add: nth_append)

lemma outlier_column:
  assumes "set locs \<subseteq> {0..<226}"
  shows "column (map (\<lambda>i. (replicate 225 [- 1 / 15] @ [[15::real]]) ! i) locs) 0
    = map (\<lambda>i. if i = 225 then 15 else - 1 / 15) locs"
  unfolding column_def map_map comp_def
  by (rule map_cong [OF refl]) (use assms outlier_row in auto)

lemma identity_is_permutation_routine: "is_permutation_routine (\<lambda>r n. [0..<n])"
  by (simp add: is_permutation_routine_def)





lemma count_list_le_length: "count_list xs x \<le> length xs"
  by (induction xs) simp_all

lemma sum_list_two_valued:
  fixes a b :: real
  shows "sum_list (map (\<lambda>i. if i = k then b else a) locs)
    = real (count_list locs k) * b + real (length locs - count_list locs k) * a"
proof (induction locs)
  case Nil
  then show ?case by simp
next
  case (Cons i locs)
  have le: "count_list locs k \<le> length locs" by (rule count_list_le_length)
  show ?case
    using Cons le by (simp add: algebra_simps Suc_diff_le of_nat_diff)
qed

lemma count_list_distinct: "distinct xs \<Longrightarrow> count_list xs x = (if x \<in> set xs then 1 else 0)"
  by (induction xs) auto

text \<open>
  The same data under any generator: whichever 200 rows are drawn, the mean of the
  column is \<open>-1/15\<close> (the signal row is left out) or \<open>13/1500\<close> (it is drawn), never 0.
\<close>

lemma subsample_mean_any_generator:
  assumes "is_permutation_routine permutation"
  shows "\<exists>d. preprocess permutation g \<lparr>nrows = 225, ncols = 1, vals = replicate 225 [0]\<rparr>
        \<lparr>nrows = 1, ncols = 1, vals = [[1]]\<rparr> = Inr d
      \<and> (col_mean (column (feat d) 0) = - 1 / 15 \<or> col_mean (column (feat d) 0) = 13 / 1500)"
proof -
  let ?locs = "take 200 (permutation (RandomState 42) 226)"
  let ?col = "map (\<lambda>i. if i = 225 then 15 else - 1 / 15 :: real) ?locs"
  have len: "length ?locs = 200"
    using assms by (simp add: length_permutation)
  have sub: "set ?locs \<subseteq> {0..<226}"
    using set_take_subset [of 200 "permutation (RandomState 42) 226"]
      set_permutation [OF assms, of "RandomState 42" 226] by simp
  have dist: "distinct ?locs"
    using assms by (simp add: distinct_permutation)
  have col: "column (map (\<lambda>i. (replicate 225 [- 1 / 15] @ [[15::real]]) ! i) ?locs) 0 = ?col"
    using sub by (rule outlier_column)
  have "sum_list ?col = real (count_list ?locs 225) * 15
      + real (200 - count_list ?locs 225) * (- 1 / 15)"
    using sum_list_two_valued [of 225 15 "- 1 / 15" ?locs] len by simp
  moreover have "count_list ?locs 225 = 0 \<or> count_list ?locs 225 = 1"
    using count_list_distinct [OF dist, of 225] by (simp split: if_splits)
  ultimately have "sum_list ?col = - 200 / 15 \<or> sum_list ?col = 26 / 15"
    by auto
  then have "col_mean ?col = - 1 / 15 \<or> col_mean ?col = 13 / 1500"
    using len by (auto simp add: col_mean_def)
  then show ?thesis
    unfolding preprocess_outlier take_rows_def using col by simp
qed


lemma mset_map_nth_permutation:
  assumes "mset locs = mset [0..<length xs]"
  shows "mset (map (\<lambda>i. xs ! i) locs) = mset xs"
proof -
  have "mset (map (\<lambda>i. xs ! i) locs) = image_mset (\<lambda>i. xs ! i) (mset locs)"
    by simp
  also have "\<dots> = mset (map (\<lambda>i. xs ! i) [0..<length xs])"
    unfolding assms by simp
  also have "\<dots> = mset xs"
    by (simp add: map_nth)
  finally show ?thesis .
qed

lemma build_frame_Inr:
  assumes "well_shaped X" and "length y = nrows X" and "0 < nrows X" and "0 < ncols X"
  shows "\<exists>Z. build_frame X y = Inr \<lparr>index = [0..<nrows X], columns = feature_names (ncols X),
        feat = Z, Label = map label_mapping y\<rparr>
      \<and> length Z = nrows X \<and> list_all (\<lambda>r. length r = ncols X) Z"
  using assms
  by (auto simp add: build_frame_def fit_transform_def well_shaped_def list_all_iff)

text \<open>
  Claim C8. For a background and a signal array of 100 rows and 67 columns each, cells 1
  to 3 return a frame of 200 rows and 67 feature columns. All 200 rows of the combined
  data are drawn, each once, so 100 carry the label Signal and 100 Background. The rows
  drawn do not depend on the state \<open>g\<close> of the global generator (the call seeds its own
  with 42): a second run, with another state \<open>g'\<close>, returns the same frame.
\<close>

theorem preprocess_scenario:
  assumes "is_permutation_routine permutation"
    and "well_shaped bkg" and "nrows bkg = 100" and "ncols bkg = 67"
    and "well_shaped sig" and "nrows sig = 100" and "ncols sig = 67"
  shows "\<exists>d. preprocess permutation g bkg sig = Inr d
    \<and> length (feat d) = 200 \<and> list_all (\<lambda>r. length r = 67) (feat d)
    \<and> length (columns d) = 67 \<and> length (Label d) = 200
    \<and> mset (index d) = mset [0..<200]
    \<and> count_list (Label d) (Some ''Signal'') = 100
    \<and> count_list (Label d) (Some ''Background'') = 100
    \<and> preprocess permutation g' bkg sig = Inr d"
proof -
  let ?X = "\<lparr>nrows = nrows bkg + nrows sig, ncols = ncols bkg, vals = vals bkg @ vals sig\<rparr>"
  let ?y = "hstack (zeros (nrows bkg)) (ones (nrows sig))"
  let ?locs = "permutation (RandomState 42) 200"
  have load: "load_data bkg sig = Inr (?X, ?y, map label_mapping ?y)"
    using assms(3,4,6,7) by (simp add: load_data_Inr)
  have shaped: "well_shaped ?X"
    using assms by (simp add: well_shaped_def)
  have ylen: "length ?y = nrows ?X"
    by (simp add: hstack_def zeros_def ones_def)
  obtain Z where frame: "build_frame ?X ?y = Inr \<lparr>index = [0..<nrows ?X],
        columns = feature_names (ncols ?X), feat = Z, Label = map label_mapping ?y\<rparr>"
    and Zlen: "length Z = nrows ?X" and Zrows: "list_all (\<lambda>r. length r = ncols ?X) Z"
    using build_frame_Inr [OF shaped ylen] assms(3,4) by auto
  let ?df = "\<lparr>index = [0..<200], columns = feature_names 67, feat = Z,
      Label = map label_mapping ?y\<rparr>"
  have locs_len: "length ?locs = 200"
    using assms(1) by (rule length_permutation)
  have locs_mset: "mset ?locs = mset [0..<200]"
    using assms(1) by (simp add: is_permutation_routine_def)
  have locs_set: "set ?locs = {0..<200}"
    using assms(1) by (rule set_permutation)
  have run: "preprocess permutation h bkg sig = Inr (take_rows ?df ?locs)" for h
    using load frame locs_len assms(3,4,6)
    by (simp add: preprocess_def subsample_def sample_def max_samples_def)
  have rows: "list_all (\<lambda>r. length r = 67) (map (\<lambda>i. Z ! i) ?locs)"
    using Zrows Zlen locs_set assms(3,4,6) by (auto simp add: list_all_iff)
  have idx: "mset (map (\<lambda>i. [0..<200] ! i) ?locs) = mset [0..<200]"
    using mset_map_nth_permutation [of ?locs "[0..<200]"] locs_mset by simp
  have lab: "mset (map (\<lambda>i. map label_mapping ?y ! i) ?locs) = mset (map label_mapping ?y)"
    using mset_map_nth_permutation [of ?locs "map label_mapping ?y"] locs_mset assms(3,6)
    by (simp add: hstack_def zeros_def ones_def)
  have cnt: "count_list (map (\<lambda>i. map label_mapping ?y ! i) ?locs) l
      = count_list (map label_mapping ?y) l" for l
    using lab by (metis count_mset)
  have labels: "count_list (map label_mapping ?y) (Some ''Signal'') = 100"
    "count_list (map label_mapping ?y) (Some ''Background'') = 100"
    using assms(3,6)
    by (simp_all add: hstack_def zeros_def ones_def label_mapping_def
        count_list_replicate_same count_list_replicate_other)
  show ?thesis
    unfolding run
    using rows idx cnt labels locs_len
    by (simp add: take_rows_def feature_names_def)
qed

theorem preprocess_scenario_witness:
  "\<exists>d. preprocess (\<lambda>r n. rev [0..<n]) 7
         \<lparr>nrows = 100, ncols = 67, vals = replicate 100 (replicate 67 1)\<rparr>
         \<lparr>nrows = 100, ncols = 67, vals = replicate 100 (replicate 67 2)\<rparr> = Inr d
    \<and> length (feat d) = 200 \<and> length (columns d) = 67"
proof -
  let ?bkg = "\<lparr>nrows = 100, ncols = 67, vals = replicate 100 (replicate 67 1)\<rparr>"
  let ?sig = "\<lparr>nrows = 100, ncols = 67, vals = replicate 100 (replicate 67 2)\<rparr>"
  have p: "is_permutation_routine (\<lambda>r n. rev [0..<n])"
    by (simp add: is_permutation_routine_def)
  have b: "well_shaped ?bkg" and s: "well_shaped ?sig"
    by (simp_all add: well_shaped_def list_all_iff)
  obtain d where "preprocess (\<lambda>r n. rev [0..<n]) 7 ?bkg ?sig = Inr d"
    and "length (feat d) = 200" and "length (columns d) = 67"
    using preprocess_scenario [OF p b _ _ s, of 7 7] by fastforce
  then show ?thesis by blast
qed

section \<open>The ranking by mutual information\<close>

lemma ties_last_first_descending: "is_descending_sort ties_last_first"
proof -
  have "sorted_wrt (\<lambda>a b. b \<le> a) (map (\<lambda>i. xs ! i) (ties_last_first xs))" for xs :: "real list"
  proof -
    have "sorted (map (\<lambda>i. xs ! i) (sort_key (\<lambda>i. xs ! i) [0..<length xs]))"
      by (rule sorted_sort_key)
    then show ?thesis
      by (simp add: ties_last_first_def rev_map [symmetric] sorted_wrt_rev)
  qed
  then show ?thesis
    by (simp add: is_descending_sort_def ties_last_first_def)
qed

lemma length_srt: "is_descending_sort srt \<Longrightarrow> length (srt xs) = length xs"
  by (metis is_descending_sort_def length_upt minus_nat.diff_0 size_mset)

lemma set_srt: "is_descending_sort srt \<Longrightarrow> set (srt xs) = {0..<length xs}"
  by (metis is_descending_sort_def set_mset_mset set_upt)

lemma distinct_srt: "is_descending_sort srt \<Longrightarrow> distinct (srt xs)"
  by (metis is_descending_sort_def distinct_upt mset_eq_imp_distinct_iff)

lemma sorted_srt:
  "is_descending_sort srt \<Longrightarrow> a < b \<Longrightarrow> b < length xs \<Longrightarrow> xs ! (srt xs ! b) \<le> xs ! (srt xs ! a)"
proof -
  assume s: "is_descending_sort srt" and ab: "a < b" and b: "b < length xs"
  have "sorted_wrt (\<lambda>a b. b \<le> a) (map (\<lambda>i. xs ! i) (srt xs))"
    using s by (simp add: is_descending_sort_def)
  then have "map (\<lambda>i. xs ! i) (srt xs) ! b \<le> map (\<lambda>i. xs ! i) (srt xs) ! a"
    using ab b length_srt [OF s, of xs] by (simp add: sorted_wrt_iff_nth_less)
  then show ?thesis
    using ab b length_srt [OF s, of xs] by simp
qed

lemma srt_first_two:
  assumes "is_descending_sort srt" and "2 \<le> length xs"
  shows "srt xs ! 0 < length xs" and "srt xs ! 1 < length xs" and "srt xs ! 0 \<noteq> srt xs ! 1"
proof -
  let ?p = "srt xs"
  have l0: "0 < length ?p" and l1: "1 < length ?p"
    using length_srt [OF assms(1), of xs] assms(2) by linarith+
  then have "?p ! 0 \<in> set ?p" and "?p ! 1 \<in> set ?p"
    by (simp_all only: nth_mem)
  then show "?p ! 0 < length xs" and "?p ! 1 < length xs"
    unfolding set_srt [OF assms(1)] by simp_all
  show "?p ! 0 \<noteq> ?p ! 1"
    using nth_eq_iff_index_eq [OF distinct_srt [OF assms(1), of xs] l0 l1] by simp
qed

lemma top_features_sorted:
  assumes "is_descending_sort srt" and "length scores = length names" and "2 \<le> length names"
  shows "top_features (sort_values srt (zip names scores))
    = [names ! (srt scores ! 0), names ! (srt scores ! 1)]"
proof -
  have snd: "map snd (zip names scores) = scores"
    using assms(2) by simp
  have len: "length (srt scores) = length names"
    using length_srt [OF assms(1), of scores] assms(2) by simp
  have lt: "srt scores ! 0 < length names" "srt scores ! 1 < length names"
    using srt_first_two(1,2) [OF assms(1), of scores] assms(2,3) by simp_all
  obtain a b rest where srt: "srt scores = a # b # rest"
    using len assms(3) by (cases "srt scores"; cases "tl (srt scores)") auto
  show ?thesis
    using lt assms(2) unfolding top_features_def head_def sort_values_def snd srt
    by (simp add: numeral_2_eq_2)
qed

text \<open>
  Claim C4, as the code has it. From at least two features the selector returns two
  different ones, the first with a score no lower than the second, and no feature left
  out has a score above the second: the two highest scores, in descending order. How
  features of equal score are ordered is left to the sort of pandas and is not part of
  the statement.
\<close>

theorem top_two_by_score:
  assumes "is_descending_sort srt" and "length scores = length names" and "2 \<le> length names"
  shows "\<exists>df i j. rank_features srt names scores = Inr df
    \<and> top_features df = [names ! i, names ! j]
    \<and> i < length names \<and> j < length names \<and> i \<noteq> j \<and> scores ! j \<le> scores ! i
    \<and> (\<forall>k < length names. k \<noteq> i \<longrightarrow> k \<noteq> j \<longrightarrow> scores ! k \<le> scores ! j)"
proof -
  let ?p = "srt scores"
  let ?i = "?p ! 0" and ?j = "?p ! 1"
  have two: "2 \<le> length scores"
    using assms(2,3) by simp
  have len: "length ?p = length names"
    using length_srt [OF assms(1), of scores] assms(2) by simp
  have i: "?i < length names" and j: "?j < length names" and ij: "?i \<noteq> ?j"
    using srt_first_two [OF assms(1) two] assms(2) by simp_all
  have ord: "scores ! ?j \<le> scores ! ?i"
    using sorted_srt [OF assms(1), of 0 1 scores] two by simp
  have rest: "scores ! k \<le> scores ! ?j" if k: "k < length names" "k \<noteq> ?i" "k \<noteq> ?j" for k
  proof -
    have "k \<in> set ?p"
      using set_srt [OF assms(1), of scores] assms(2) k(1) by simp
    then obtain p where p: "p < length ?p" "?p ! p = k"
      by (auto simp add: in_set_conv_nth)
    have "1 < p"
      using p k(2,3) by (cases p rule: nat.exhaust; cases "p - 1") auto
    then show ?thesis
      using sorted_srt [OF assms(1), of 1 p scores] p len assms(2) by simp
  qed
  have run: "rank_features srt names scores = Inr (sort_values srt (zip names scores))"
    using assms(2) by (simp add: rank_features_def)
  show ?thesis
    using run top_features_sorted [OF assms] i j ij ord rest by blast
qed

theorem top_two_by_score_witness:
  "\<exists>df i j. rank_features ties_last_first [''Feature_1'', ''Feature_2'', ''Feature_3'']
        [3 / 10, 1 / 10, 2 / 10] = Inr df
     \<and> top_features df = [[''Feature_1'', ''Feature_2'', ''Feature_3''] ! i,
          [''Feature_1'', ''Feature_2'', ''Feature_3''] ! j]
     \<and> i \<noteq> j"
  using top_two_by_score [OF ties_last_first_descending,
      of "[3 / 10, 1 / 10, 2 / 10]" "[''Feature_1'', ''Feature_2'', ''Feature_3'']"]
  by (simp del: ex_simps, blast)

lemma ties_last_first_example:
  "ties_last_first (map (\<lambda>x. x / 1000)
     [17, 16, 2, 1, 13, 12, 11, 10, 9, 8, 7, 6, 5, 4, 3, 100, 100, 0])
   = [16, 15, 0, 1, 4, 5, 6, 7, 8, 9, 10, 11, 12, 13, 14, 2, 3, 17]"
  by (simp add: ties_last_first_def upt_rec [of 0] numeral_eq_Suc)


lemma feature_names_2: "feature_names 2 = [''Feature_1'', ''Feature_2'']"
  by code_simp

lemma feature_names_18_tail:
  "feature_names 18 ! 16 = ''Feature_17''"
  "feature_names 18 ! 15 = ''Feature_16''"
  by code_simp+

lemma length_feature_names: "length (feature_names F) = F"
  by (simp add: feature_names_def)

text \<open>
  Claim C4 fails for equal scores. Of 18 features, Feature_16 and Feature_17 share the
  highest score. A sort that meets the contract of pandas may rank Feature_17 first,
  against the original order of the features.
\<close>

theorem ties_not_in_feature_order:
  "map_sum id top_features
     (rank_features ties_last_first (feature_names 18)
        (map (\<lambda>x. x / 1000)
           [17, 16, 2, 1, 13, 12, 11, 10, 9, 8, 7, 6, 5, 4, 3, 100, 100, 0]))
     = Inr [''Feature_17'', ''Feature_16'']
   \<and> map (\<lambda>x. x / 1000) [17, 16, 2, 1, 13, 12, 11, 10, 9, 8, 7, 6, 5, 4, 3, 100, 100, 0 :: real] ! 15
     = map (\<lambda>x. x / 1000) [17, 16, 2, 1, 13, 12, 11, 10, 9, 8, 7, 6, 5, 4, 3, 100, 100, 0] ! 16"
proof -
  let ?scores = "map (\<lambda>x. x / 1000)
      [17, 16, 2, 1, 13, 12, 11, 10, 9, 8, 7, 6, 5, 4, 3, 100, 100, 0 :: real]"
  have len: "length ?scores = length (feature_names 18)"
    by (simp add: length_feature_names)
  have top: "top_features (sort_values ties_last_first (zip (feature_names 18) ?scores))
      = [feature_names 18 ! (ties_last_first ?scores ! 0),
         feature_names 18 ! (ties_last_first ?scores ! 1)]"
    using ties_last_first_descending len by (rule top_features_sorted)
      (simp add: length_feature_names)
  have run: "rank_features ties_last_first (feature_names 18) ?scores
      = Inr (sort_values ties_last_first (zip (feature_names 18) ?scores))"
    using len by (simp add: rank_features_def)
  show ?thesis
    unfolding run map_sum.simps top ties_last_first_example by (simp add: feature_names_18_tail)
qed

section \<open>The split and the feature map\<close>

lemma n_test_bounds:
  assumes "2 \<le> n"
  shows "0 < nat \<lceil>2 / 10 * real n\<rceil>" and "nat \<lceil>2 / 10 * real n\<rceil> < n"
proof -
  have "(0::real) < 2 / 10 * real n" using assms by simp
  then have "0 < \<lceil>2 / 10 * real n\<rceil>" by (simp add: ceiling_less_iff)
  then show "0 < nat \<lceil>2 / 10 * real n\<rceil>" by simp
  have "2 / 10 * real n \<le> real_of_int (int n - 1)" using assms by simp
  then have "\<lceil>2 / 10 * real n\<rceil> \<le> int n - 1" by (rule ceiling_le)
  then show "nat \<lceil>2 / 10 * real n\<rceil> < n" using assms by linarith
qed

lemma zip_rows_labels:
  assumes "length xs = length ys"
  shows "mset (map (\<lambda>i. (xs ! i, ys ! i)) [0..<length xs]) = mset (zip xs ys)"
proof -
  have "map (\<lambda>i. (xs ! i, ys ! i)) [0..<length xs] = zip xs ys"
    using assms by (intro nth_equalityI) simp_all
  then show ?thesis by simp
qed

lemma zip_map_same: "zip (map f ind) (map h ind) = map (\<lambda>i. (f i, h i)) ind"
  by (induction ind) simp_all

lemma train_test_split_Inr:
  assumes "is_permutation_routine permutation" and "length y = nrows X" and "2 \<le> nrows X"
  shows "\<exists>sp. train_test_split permutation g X y (2 / 10) (Some 42) = Inr sp"
  using assms n_test_bounds [OF assms(3)]
  by (simp add: train_test_split_def Let_def)

text \<open>
  Claim C10. The split of at least two samples returns a test set of
  \<open>ceil(0.2 * n)\<close> samples and a training set of the others (40 and 160 of 200). The
  positions behind the two sets are distinct and together are all positions, so every
  sample is in exactly one set; features and labels are read at the same positions, so
  each row keeps its label. The result does not depend on the state of the global
  generator: the call seeds its own with 42.
\<close>

theorem train_test_split_partition:
  assumes "is_permutation_routine permutation"
    and "length (vals X) = nrows X" and "length y = nrows X" and "2 \<le> nrows X"
  shows "\<exists>X_train X_test y_train y_test ind_train ind_test.
      train_test_split permutation g X y (2 / 10) (Some 42)
        = Inr (X_train, X_test, y_train, y_test)
    \<and> train_test_split permutation g' X y (2 / 10) (Some 42)
        = Inr (X_train, X_test, y_train, y_test)
    \<and> X_train = rows_at X ind_train \<and> y_train = map (\<lambda>i. y ! i) ind_train
    \<and> X_test = rows_at X ind_test \<and> y_test = map (\<lambda>i. y ! i) ind_test
    \<and> distinct (ind_test @ ind_train) \<and> set (ind_test @ ind_train) = {0..<nrows X}
    \<and> length ind_test = nat \<lceil>2 / 10 * real (nrows X)\<rceil>
    \<and> length ind_train = nrows X - nat \<lceil>2 / 10 * real (nrows X)\<rceil>
    \<and> (nrows X = 200 \<longrightarrow> nrows X_test = 40 \<and> nrows X_train = 160)
    \<and> mset (zip (vals X_train) y_train) + mset (zip (vals X_test) y_test)
        = mset (zip (vals X) y)"
proof -
  let ?n = "nrows X"
  let ?k = "nat \<lceil>2 / 10 * real ?n\<rceil>"
  let ?perm = "permutation (RandomState 42) ?n"
  let ?test = "take ?k ?perm"
  let ?train = "take (?n - ?k) (drop ?k ?perm)"
  have k: "0 < ?k" "?k < ?n"
    using n_test_bounds [OF assms(4)] by simp_all
  have plen: "length ?perm = ?n"
    using assms(1) by (rule length_permutation)
  have train: "?train = drop ?k ?perm"
    using plen by simp
  have app: "?test @ ?train = ?perm"
    unfolding train by simp
  have run: "train_test_split permutation h X y (2 / 10) (Some 42)
      = Inr (rows_at X ?train, rows_at X ?test, map (\<lambda>i. y ! i) ?train, map (\<lambda>i. y ! i) ?test)"
    for h
    using assms(3) k by (simp add: train_test_split_def Let_def)
  have dist: "distinct (?test @ ?train)"
    unfolding app using assms(1) by (rule distinct_permutation)
  have cover: "set (?test @ ?train) = {0..<?n}"
    unfolding app using assms(1) by (rule set_permutation)
  have len_test: "length ?test = ?k"
    using plen k by simp
  have len_train: "length ?train = ?n - ?k"
    using plen by simp
  have sizes: "?n = 200 \<longrightarrow> nrows (rows_at X ?test) = 40 \<and> nrows (rows_at X ?train) = 160"
  proof
    assume n: "?n = 200"
    have "?k = 40" by (simp add: n)
    then show "nrows (rows_at X ?test) = 40 \<and> nrows (rows_at X ?train) = 160"
      using len_test len_train n by (simp add: rows_at_def)
  qed
  have "mset (zip (vals (rows_at X ?train)) (map (\<lambda>i. y ! i) ?train))
      + mset (zip (vals (rows_at X ?test)) (map (\<lambda>i. y ! i) ?test))
      = image_mset (\<lambda>i. (vals X ! i, y ! i)) (mset (?test @ ?train))"
    by (simp add: rows_at_def zip_map_same)
  also have "\<dots> = image_mset (\<lambda>i. (vals X ! i, y ! i)) (mset [0..<length (vals X)])"
    unfolding app using assms(1,2) by (simp add: is_permutation_routine_def)
  also have "\<dots> = mset (zip (vals X) y)"
    using zip_rows_labels [of "vals X" y] assms(2,3) by simp
  finally have pairs: "mset (zip (vals (rows_at X ?train)) (map (\<lambda>i. y ! i) ?train))
      + mset (zip (vals (rows_at X ?test)) (map (\<lambda>i. y ! i) ?test)) = mset (zip (vals X) y)" .
  show ?thesis
    using run [of g] run [of g'] dist cover len_test len_train sizes pairs
    by (intro exI [of _ "rows_at X ?train"] exI [of _ "rows_at X ?test"]
        exI [of _ "map (\<lambda>i. y ! i) ?train"] exI [of _ "map (\<lambda>i. y ! i) ?test"]
        exI [of _ ?train] exI [of _ ?test]) blast
qed

theorem train_test_split_partition_witness:
  "\<exists>X_train X_test y_train y_test.
     train_test_split (\<lambda>r n. rev [0..<n]) 0
       \<lparr>nrows = 200, ncols = 2, vals = replicate 200 [0, 0]\<rparr> (replicate 200 0) (2 / 10) (Some 42)
       = Inr (X_train, X_test, y_train, y_test)
     \<and> nrows X_test = 40 \<and> nrows X_train = 160"
proof -
  have p: "is_permutation_routine (\<lambda>r n. rev [0..<n])"
    by (simp add: is_permutation_routine_def)
  show ?thesis
    using train_test_split_partition [OF p,
        of "\<lparr>nrows = 200, ncols = 2, vals = replicate 200 [0, 0]\<rparr>" "replicate 200 0" 0 0]
    by (simp del: ex_simps, blast)
qed

lemma get_loc_None_iff: "get_loc cs name = None \<longleftrightarrow> name \<notin> set cs"
  by (induction cs) auto

lemma select_columns_positions:
  assumes "distinct (columns df)" and "i < length (columns df)" and "j < length (columns df)"
  shows "select_columns df [columns df ! i, columns df ! j]
    = Inr \<lparr>nrows = length (index df), ncols = 2, vals = map (\<lambda>r. [r ! i, r ! j]) (feat df)\<rparr>"
  using assms by (simp add: select_columns_def get_loc_nth)

lemma select_features_top:
  assumes "is_mi_estimator mi" and "is_descending_sort srt" and "2 \<le> length (columns d)"
    and "mi (GlobalState g) (values_of d) (signal_int (Label d)) = Inr scores"
  shows "\<exists>X_selected.
      select_columns d [columns d ! (srt scores ! 0), columns d ! (srt scores ! 1)]
        = Inr X_selected
    \<and> select_features mi srt g d
        = Inr (scores, [columns d ! (srt scores ! 0), columns d ! (srt scores ! 1)], X_selected)
    \<and> ncols X_selected = 2 \<and> nrows X_selected = length (index d)"
proof -
  let ?names = "columns d"
  let ?top = "[?names ! (srt scores ! 0), ?names ! (srt scores ! 1)]"
  have len: "length scores = length ?names"
    using assms(1,4) by (simp add: is_mi_estimator_def values_of_def)
  have two: "2 \<le> length scores"
    using len assms(3) by simp
  have top: "top_features (sort_values srt (zip ?names scores)) = ?top"
    using assms(2) len assms(3) by (rule top_features_sorted)
  have "set ?top \<subseteq> set ?names"
    using srt_first_two(1,2) [OF assms(2) two] len by simp
  then have found: "\<not> list_ex (\<lambda>name. get_loc ?names name = None) ?top"
    by (auto simp add: list_ex_iff get_loc_None_iff)
  show ?thesis
    using len found top assms(4)
    by (simp add: select_features_def Let_def select_columns_def rank_features_def)
qed

text \<open>An exception of the estimator is the result of the cell.\<close>

lemma select_features_estimator_error:
  assumes "mi (GlobalState g) (values_of d) (signal_int (Label d)) = Inl e"
  shows "select_features mi srt g d = Inl e"
  using assms by (simp add: select_features_def Let_def)

lemma noise_sensitive_is_estimator: "is_mi_estimator noise_sensitive_estimator"
  by (auto simp add: is_mi_estimator_def noise_sensitive_estimator_def split: if_splits)

lemma count_signal_int: "count_list (signal_int L) 1 = count_list L (Some ''Signal'')"
  by (induction L) (simp_all add: signal_int_def)

text \<open>On a frame with one sample of each class the estimator raises, and so does cell 4.\<close>

lemma select_features_single_samples:
  "select_features noise_sensitive_estimator srt g
     \<lparr>index = [0, 1], columns = feature_names 2, feat = [[0, 0], [1, 1]],
      Label = [Some ''Signal'', Some ''Background'']\<rparr> = Inl ValueError"
  by (rule select_features_estimator_error)
    (simp add: noise_sensitive_estimator_def signal_int_def)

text \<open>
  Claim C9. On a frame of at least two feature columns and two rows for which the
  estimator returns its scores, cell 4 selects two different feature columns, the array
  \<open>X_selected\<close> holds exactly these two columns, and cell 5 builds the feature map with a
  feature dimension equal to their number, hence one input parameter per selected
  feature, with \<open>reps = 2\<close> and \<open>entanglement = "linear"\<close>.
\<close>

theorem feature_map_arguments:
  assumes "is_mi_estimator mi" and "is_descending_sort srt"
    and "is_permutation_routine permutation"
    and "mi (GlobalState g) (values_of d) (signal_int (Label d)) = Inr scores"
    and "distinct (columns d)"
    and "2 \<le> length (columns d)" and "2 \<le> length (index d)"
    and "length (Label d) = length (index d)"
  shows "\<exists>i j X_selected sp fm.
      select_features mi srt g d = Inr (scores, [columns d ! i, columns d ! j], X_selected)
    \<and> i < length (columns d) \<and> j < length (columns d) \<and> i \<noteq> j
    \<and> vals X_selected = map (\<lambda>r. [r ! i, r ! j]) (feat d)
    \<and> qsvm_setup permutation g X_selected (Label d) = Inr (sp, fm)
    \<and> feature_dimension fm = ncols X_selected \<and> feature_dimension fm = 2
    \<and> length (parameters fm) = 2
    \<and> reps fm = 2 \<and> entanglement fm = ''linear''"
proof -
  let ?i = "srt scores ! 0" and ?j = "srt scores ! 1"
  have len: "length scores = length (columns d)"
    using assms(1,4) by (simp add: is_mi_estimator_def values_of_def)
  have ij: "?i < length (columns d)" "?j < length (columns d)" "?i \<noteq> ?j"
    using srt_first_two [OF assms(2), of scores] len assms(6) by simp_all
  obtain X_selected
    where cols: "select_columns d [columns d ! ?i, columns d ! ?j] = Inr X_selected"
    and sel: "select_features mi srt g d
      = Inr (scores, [columns d ! ?i, columns d ! ?j], X_selected)"
    and shape: "ncols X_selected = 2" "nrows X_selected = length (index d)"
    using select_features_top [OF assms(1,2,6,4)] by blast
  have held: "vals X_selected = map (\<lambda>r. [r ! ?i, r ! ?j]) (feat d)"
    using cols select_columns_positions [OF assms(5) ij(1,2)] by simp
  have "length (signal_int (Label d)) = nrows X_selected"
    using shape(2) assms(8) by (simp add: signal_int_def)
  then obtain sp where sp:
    "train_test_split permutation g X_selected (signal_int (Label d)) (2 / 10) (Some 42) = Inr sp"
    using train_test_split_Inr [OF assms(3), of "signal_int (Label d)" X_selected g] shape(2) assms(7)
    by auto
  have built: "qsvm_setup permutation g X_selected (Label d)
      = Inr (sp, ZZFeatureMap (ncols X_selected) 2 ''linear'')"
    using sp by (simp add: qsvm_setup_def)
  show ?thesis
    using sel ij held built shape(1)
    by (intro exI [of _ ?i] exI [of _ ?j] exI [of _ X_selected] exI [of _ sp]
        exI [of _ "ZZFeatureMap (ncols X_selected) 2 ''linear''"])
      (simp add: ZZFeatureMap_def parameters_def)
qed

theorem feature_map_arguments_witness:
  "\<exists>top X_selected sp fm.
      select_features noise_sensitive_estimator ties_last_first 0
        \<lparr>index = [0..<200], columns = feature_names 2,
         feat = replicate 100 [0, 1] @ replicate 100 [1, 0],
         Label = replicate 100 (Some ''Background'') @ replicate 100 (Some ''Signal'')\<rparr>
        = Inr ([0, 1 / 1000], top, X_selected)
    \<and> qsvm_setup (\<lambda>r n. rev [0..<n]) 0 X_selected
          (replicate 100 (Some ''Background'') @ replicate 100 (Some ''Signal''))
        = Inr (sp, fm)
    \<and> feature_dimension fm = 2 \<and> reps fm = 2 \<and> entanglement fm = ''linear''"
proof -
  let ?d = "\<lparr>index = [0..<200], columns = feature_names 2,
         feat = replicate 100 [0, 1] @ replicate 100 [1, 0],
         Label = replicate 100 (Some ''Background'') @ replicate 100 (Some ''Signal'')\<rparr>"
  have p: "is_permutation_routine (\<lambda>r n. rev [0..<n])"
    by (simp add: is_permutation_routine_def)
  have "count_list (signal_int (Label ?d)) 1 = 100"
    by (simp add: count_signal_int count_list_replicate_same count_list_replicate_other)
  then have est: "noise_sensitive_estimator (GlobalState 0) (values_of ?d) (signal_int (Label ?d))
      = Inr [0, 1 / 1000]"
    by (simp add: noise_sensitive_estimator_def values_of_def length_feature_names
        upt_rec [of 0] numeral_eq_Suc)
  obtain i j X_selected sp fm
    where "select_features noise_sensitive_estimator ties_last_first 0 ?d
        = Inr ([0, 1 / 1000], [columns ?d ! i, columns ?d ! j], X_selected)"
      and "qsvm_setup (\<lambda>r n. rev [0..<n]) 0 X_selected (Label ?d) = Inr (sp, fm)"
      and "feature_dimension fm = 2" and "reps fm = 2" and "entanglement fm = ''linear''"
    using feature_map_arguments [OF noise_sensitive_is_estimator ties_last_first_descending p est]
    by (auto simp add: length_feature_names distinct_feature_names)
  then show ?thesis
    by (intro exI [of _ "[columns ?d ! i, columns ?d ! j]"] exI [of _ X_selected]
        exI [of _ sp] exI [of _ fm]) simp
qed

section \<open>Reproducibility of the selection\<close>

lemma preprocess_all_rows:
  assumes "is_permutation_routine permutation"
    and "well_shaped bkg" and "well_shaped sig" and "ncols bkg = ncols sig" and "0 < ncols bkg"
    and "nrows bkg + nrows sig = 200"
  shows "\<exists>d. (\<forall>h. preprocess permutation h bkg sig = Inr d)
    \<and> columns d = feature_names (ncols bkg) \<and> length (index d) = 200
    \<and> count_list (Label d) (Some ''Signal'') = nrows sig"
proof -
  let ?X = "\<lparr>nrows = nrows bkg + nrows sig, ncols = ncols bkg, vals = vals bkg @ vals sig\<rparr>"
  let ?y = "hstack (zeros (nrows bkg)) (ones (nrows sig))"
  let ?locs = "permutation (RandomState 42) 200"
  have load: "load_data bkg sig = Inr (?X, ?y, map label_mapping ?y)"
    using assms(4,6) by (simp add: load_data_Inr)
  have shaped: "well_shaped ?X"
    using assms(2,3,4) by (simp add: well_shaped_def)
  have ylen: "length ?y = nrows ?X"
    by (simp add: hstack_def zeros_def ones_def)
  obtain Z where frame: "build_frame ?X ?y = Inr \<lparr>index = [0..<nrows ?X],
        columns = feature_names (ncols ?X), feat = Z, Label = map label_mapping ?y\<rparr>"
    using build_frame_Inr [OF shaped ylen] assms(5,6) by force
  let ?df = "\<lparr>index = [0..<200], columns = feature_names (ncols bkg),
      feat = Z, Label = map label_mapping ?y\<rparr>"
  have locs_len: "length ?locs = 200"
    using assms(1) by (rule length_permutation)
  have locs_mset: "mset ?locs = mset [0..<200]"
    using assms(1) by (simp add: is_permutation_routine_def)
  have run: "preprocess permutation h bkg sig = Inr (take_rows ?df ?locs)" for h
    using load frame locs_len assms(6)
    by (simp add: preprocess_def subsample_def sample_def max_samples_def Let_def)
  have "length (map label_mapping ?y) = 200"
    using ylen assms(6) by simp
  then have "mset (map (\<lambda>i. map label_mapping ?y ! i) ?locs) = mset (map label_mapping ?y)"
    using mset_map_nth_permutation [of ?locs "map label_mapping ?y"] locs_mset by simp
  then have "count_list (map (\<lambda>i. map label_mapping ?y ! i) ?locs) (Some ''Signal'')
      = count_list (map label_mapping ?y) (Some ''Signal'')"
    by (metis count_mset)
  also have "\<dots> = nrows sig"
    by (simp add: hstack_def zeros_def ones_def label_mapping_def
        count_list_replicate_same count_list_replicate_other)
  finally have labels: "count_list (map (\<lambda>i. map label_mapping ?y ! i) ?locs) (Some ''Signal'')
      = nrows sig" .
  show ?thesis
    using run locs_len labels
    by (intro exI [of _ "take_rows ?df ?locs"]) (simp add: take_rows_def)
qed

lemma ties_last_first_01:
  "ties_last_first [0, 1 / 1000] = [1, 0]"
  "ties_last_first [1 / 1000, 0] = [0, 1]"
  by (simp_all add: ties_last_first_def upt_rec [of 0] numeral_eq_Suc)

text \<open>
  Claim C3 on the code. Cells 3 and 5 pass \<^verbatim>\<open>random_state=42\<close>; the call of
  \<^verbatim>\<open>mutual_info_classif\<close> in cell 4 passes none, so the estimator draws from the global
  generator and the scores are a function of that generator's state as well as of the
  data. With an estimator that is sensitive to what it draws, two runs on the same two
  arrays (100 rows of zeros each, every feature value tied) that differ only in the
  state of the global generator select the two features in opposite orders.
\<close>

theorem selection_depends_on_global_generator:
  "map_sum id (fst \<circ> snd)
     (notebook_selection (\<lambda>r n. [0..<n]) noise_sensitive_estimator ties_last_first 0
        \<lparr>nrows = 100, ncols = 2, vals = replicate 100 [0, 0]\<rparr>
        \<lparr>nrows = 100, ncols = 2, vals = replicate 100 [0, 0]\<rparr>)
     = Inr [''Feature_2'', ''Feature_1'']
   \<and> map_sum id (fst \<circ> snd)
     (notebook_selection (\<lambda>r n. [0..<n]) noise_sensitive_estimator ties_last_first 1
        \<lparr>nrows = 100, ncols = 2, vals = replicate 100 [0, 0]\<rparr>
        \<lparr>nrows = 100, ncols = 2, vals = replicate 100 [0, 0]\<rparr>)
     = Inr [''Feature_1'', ''Feature_2'']"
proof -
  let ?Z = "\<lparr>nrows = 100, ncols = 2, vals = replicate 100 [0, 0]\<rparr>"
  have Z: "well_shaped ?Z"
    by (simp add: well_shaped_def list_all_iff)
  obtain d where run: "\<And>h. preprocess (\<lambda>r n. [0..<n]) h ?Z ?Z = Inr d"
    and cols: "columns d = feature_names 2"
    and sig: "count_list (Label d) (Some ''Signal'') = 100"
    using preprocess_all_rows [OF identity_is_permutation_routine Z Z] by auto
  have two: "2 \<le> length (columns d)" and nc: "ncols (values_of d) = 2"
    by (simp_all add: cols length_feature_names values_of_def)
  have enough: "\<not> (count_list (signal_int (Label d)) 0 < 2
      \<and> count_list (signal_int (Label d)) 1 < 2)"
    by (simp add: count_signal_int sig)
  have s0: "noise_sensitive_estimator (GlobalState 0) (values_of d) (signal_int (Label d))
      = Inr [0, 1 / 1000]"
    and s1: "noise_sensitive_estimator (GlobalState 1) (values_of d) (signal_int (Label d))
      = Inr [1 / 1000, 0]"
    using enough
    by (simp_all add: noise_sensitive_estimator_def nc upt_rec [of 0] numeral_eq_Suc)
  obtain X0 where r0: "select_features noise_sensitive_estimator ties_last_first 0 d
      = Inr ([0, 1 / 1000], [columns d ! 1, columns d ! 0], X0)"
    using select_features_top [OF noise_sensitive_is_estimator ties_last_first_descending two s0]
    by (auto simp add: ties_last_first_01)
  obtain X1 where r1: "select_features noise_sensitive_estimator ties_last_first 1 d
      = Inr ([1 / 1000, 0], [columns d ! 0, columns d ! 1], X1)"
    using select_features_top [OF noise_sensitive_is_estimator ties_last_first_descending two s1]
    by (auto simp add: ties_last_first_01)
  show ?thesis
    by (simp add: notebook_selection_def run r0 [unfolded One_nat_def] r1 [unfolded One_nat_def]
        cols feature_names_2)
qed

text \<open>
  What holds instead: with an estimator that does not read the global generator, the
  selection is the same for every state of it.
\<close>

lemma select_features_reproducible_if_seeded:
  assumes "\<And>h h'. mi (GlobalState h) = mi (GlobalState h')"
  shows "select_features mi srt g d = select_features mi srt g' d"
  using assms [of g g'] by (simp add: select_features_def)

end
